theory Spec2Isabelle
  imports Main
begin

section \<open>The banking system of \<^verbatim>\<open>src/main.py\<close>\<close>

text \<open>
  The program is a FastAPI application over two SQLAlchemy tables. Every handler has the
  shape \<^verbatim>\<open>try: <body> except Exception as e: raise HTTPException(500, str(e))\<close>.
  The embedding keeps that shape: each handler \<open>h\<close> is \<open>except_Exception\<close> applied to
  its try block \<open>h_try\<close>, and a handler maps the database to a result and the database
  after the request.

  Conventions of the embedding:
  \<^item> a Python \<^verbatim>\<open>float\<close> is an IEEE 754 binary64 number, \<open>pyfloat\<close> below, with
    round-to-nearest-even addition and subtraction, the two infinities and NaN; the two
    zeros are one value (they are equal for \<^verbatim>\<open><\<close> and \<^verbatim>\<open>==\<close>, the only tests of the code);
  \<^item> a \<^verbatim>\<open>Float\<close> column is nullable: it holds a \<open>pyfloat option\<close>, \<open>None\<close> for NULL, and
    SQLite stores NaN as NULL;
  \<^item> a \<^verbatim>\<open>datetime\<close> is a clock reading, a natural number; \<^verbatim>\<open>datetime.now()\<close> is the
    parameter \<open>now\<close> of the handler;
  \<^item> a table is the list of its rows in insertion order;
  \<^item> the two tables share column names, and \<open>id\<close> and \<open>type\<close> are taken in HOL, so the
    columns of \<^verbatim>\<open>accounts\<close> are \<open>id_acc\<close>, \<open>balance\<close>, \<open>owner\<close>, \<open>created_at\<close>,
    \<open>updated_at\<close>, \<open>deleted_at\<close> and those of \<^verbatim>\<open>transactions\<close> are \<open>id_txn\<close>,
    \<open>account_id\<close>, \<open>amount\<close>, \<open>type_txn\<close>, \<open>created_at_txn\<close>, \<open>deleted_at_txn\<close>; the
    fields of the request bodies carry the suffix \<open>_in\<close>;
  \<^item> failures of the storage layer itself (a lost connection, a full disk, a key beyond
    the 64 bits of an SQLite integer) and the rendering of a returned dictionary as JSON
    are not modelled.
\<close>

subsection \<open>Floating-point numbers\<close>

text \<open>
  Every finite binary64 number is an integer multiple of the smallest subnormal,
  \<^verbatim>\<open>2 ** -1074\<close>. \<open>Finite n\<close> is \<open>n\<close> times that unit; it is a binary64 number when
  \<open>n\<close> has at most 53 significant bits and \<open>\<bar>n\<bar> < 2 ^ 2098\<close>, which is \<^verbatim>\<open>2 ** 1024\<close>
  in these units.
\<close>

datatype pyfloat = Finite int | PInf | NInf | NaN

text \<open>The number of bits of \<open>n\<close> beyond the 53 of the significand.\<close>

function excess_bits :: "nat \<Rightarrow> nat" where
  "excess_bits n = (if n < 2 ^ 53 then 0 else Suc (excess_bits (n div 2)))"
  by pat_completeness auto
termination
  by (relation "measure id") auto

declare excess_bits.simps [simp del]

text \<open>Rounding of a magnitude to 53 significant bits, to nearest, ties to the even
  significand.\<close>

definition round_mag :: "nat \<Rightarrow> nat" where
  "round_mag a =
     (let s = excess_bits a; q = a div 2 ^ s; r = a mod 2 ^ s;
          q' = (if 2 * r < 2 ^ s \<or> (2 * r = 2 ^ s \<and> even q) then q else q + 1)
      in q' * 2 ^ s)"

text \<open>Rounding of an exact result; a rounded magnitude of \<^verbatim>\<open>2 ** 1024\<close> or more
  overflows to an infinity.\<close>

definition round53 :: "int \<Rightarrow> pyfloat" where
  "round53 n =
     (let m = int (round_mag (nat \<bar>n\<bar>))
      in if 2 ^ 2098 \<le> m then (if n < 0 then NInf else PInf)
         else Finite (if n < 0 then - m else m))"

fun fneg :: "pyfloat \<Rightarrow> pyfloat" where
  "fneg (Finite a) = Finite (- a)"
| "fneg PInf = NInf"
| "fneg NInf = PInf"
| "fneg NaN = NaN"

text \<open>\<^verbatim>\<open>x + y\<close> and \<^verbatim>\<open>x - y\<close> on floats.\<close>

fun fadd :: "pyfloat \<Rightarrow> pyfloat \<Rightarrow> pyfloat" where
  "fadd NaN y = NaN"
| "fadd x NaN = NaN"
| "fadd PInf NInf = NaN"
| "fadd NInf PInf = NaN"
| "fadd PInf y = PInf"
| "fadd x PInf = PInf"
| "fadd NInf y = NInf"
| "fadd x NInf = NInf"
| "fadd (Finite a) (Finite b) = round53 (a + b)"

definition fsub :: "pyfloat \<Rightarrow> pyfloat \<Rightarrow> pyfloat" where
  "fsub x y = fadd x (fneg y)"

text \<open>\<^verbatim>\<open>x < y\<close> and \<^verbatim>\<open>x <= y\<close> on floats: false when either is NaN.\<close>

fun flt :: "pyfloat \<Rightarrow> pyfloat \<Rightarrow> bool" where
  "flt NaN y = False"
| "flt x NaN = False"
| "flt PInf y = False"
| "flt x PInf = True"
| "flt x NInf = False"
| "flt NInf y = True"
| "flt (Finite a) (Finite b) = (a < b)"

definition fle :: "pyfloat \<Rightarrow> pyfloat \<Rightarrow> bool" where
  "fle x y = (x \<noteq> NaN \<and> y \<noteq> NaN \<and> \<not> flt y x)"

text \<open>\<^verbatim>\<open>float(k)\<close> of an integer: the binary64 number nearest to \<open>k\<close>.\<close>

definition double_of_int :: "int \<Rightarrow> pyfloat" where
  "double_of_int k = round53 (k * 2 ^ 1074)"

text \<open>The float whose value is the integer \<open>m\<close>, for an \<open>m\<close> of at most 53 significant
  bits.\<close>

definition exact_int :: "int \<Rightarrow> pyfloat" where
  "exact_int m = Finite (m * 2 ^ 1074)"

text \<open>The value a \<^verbatim>\<open>Float\<close> column keeps of a bound parameter: SQLite turns NaN into NULL.\<close>

definition to_sql :: "pyfloat \<Rightarrow> pyfloat option" where
  "to_sql x = (if x = NaN then None else Some x)"

text \<open>\<^verbatim>\<open>==\<close> on attribute values that are a float or \<^verbatim>\<open>None\<close>.\<close>

fun py_eq :: "pyfloat option \<Rightarrow> pyfloat option \<Rightarrow> bool" where
  "py_eq None None = True"
| "py_eq (Some x) (Some y) = (x \<noteq> NaN \<and> x = y)"
| "py_eq _ _ = False"

subsection \<open>Tables and request bodies\<close>

type_synonym datetime = nat

record AccountDB =
  id_acc :: int
  balance :: "pyfloat option"
  owner :: string
  created_at :: datetime
  updated_at :: datetime
  deleted_at :: "datetime option"

record TransactionDB =
  id_txn :: int
  account_id :: int
  amount :: "pyfloat option"
  type_txn :: string
  created_at_txn :: datetime
  deleted_at_txn :: "datetime option"

record AccountCreate =
  owner_in :: string
  balance_in :: pyfloat
  created_at_in :: datetime
  updated_at_in :: datetime
  deleted_at_in :: "datetime option"

record TransactionCreate =
  amount_in :: pyfloat
  type_in :: string
  created_at_txn_in :: datetime
  deleted_at_txn_in :: "datetime option"

record database =
  accounts :: "AccountDB list"
  transactions :: "TransactionDB list"

definition empty_db :: database where
  "empty_db = \<lparr>accounts = [], transactions = []\<rparr>"

subsection \<open>Exceptions\<close>

text \<open>
  \<^verbatim>\<open>HTTPException(status_code, detail)\<close>, and the \<^verbatim>\<open>TypeError\<close> of an operator applied
  to \<^verbatim>\<open>None\<close>. The detail is either a string literal of the source or \<^verbatim>\<open>str(e)\<close> of a
  caught exception, kept symbolic as \<open>Str e\<close>.
\<close>

datatype py_exception = HTTPException nat detail | TypeError
  and detail = Literal string | Str py_exception

text \<open>The attribute \<^verbatim>\<open>status_code\<close>, which a \<^verbatim>\<open>TypeError\<close> does not have.\<close>

fun status_code :: "py_exception \<Rightarrow> nat option" where
  "status_code (HTTPException c d) = Some c"
| "status_code TypeError = None"

type_synonym 'a outcome = "(py_exception + 'a) \<times> database"

text \<open>The clause \<^verbatim>\<open>except Exception as e: raise HTTPException(status_code=500, detail=str(e))\<close>.
  \<^verbatim>\<open>HTTPException\<close> is a subclass of \<^verbatim>\<open>Exception\<close>, so the clause catches it too.\<close>

fun except_Exception :: "'a outcome \<Rightarrow> 'a outcome" where
  "except_Exception (Inl e, db) = (Inl (HTTPException 500 (Str e)), db)"
| "except_Exception (Inr v, db) = (Inr v, db)"

subsection \<open>The session\<close>

text \<open>The query \<^verbatim>\<open>filter(AccountDB.id == k, AccountDB.deleted_at.is_(None)).first()\<close>.\<close>

definition first_active :: "int \<Rightarrow> AccountDB list \<Rightarrow> AccountDB option" where
  "first_active k rows = find (\<lambda>r. id_acc r = k \<and> deleted_at r = None) rows"

text \<open>
  An ORM object is the session's copy of a row, and the session holds one object for each
  primary key: two queries for one key give the same object. The session's copies are the
  list \<open>sess\<close>; \<open>setattr k f\<close> is an attribute assignment on the object of key \<open>k\<close>, and
  \<open>getattr_balance k\<close> reads the attribute \<^verbatim>\<open>balance\<close> of the object a query for \<open>k\<close>
  returned.
\<close>

definition setattr :: "int \<Rightarrow> (AccountDB \<Rightarrow> AccountDB) \<Rightarrow> AccountDB list \<Rightarrow> AccountDB list" where
  "setattr k f sess = map (\<lambda>r. if id_acc r = k then f r else r) sess"

definition getattr_balance :: "int \<Rightarrow> AccountDB list \<Rightarrow> pyfloat option" where
  "getattr_balance k sess = Option.bind (first_active k sess) balance"

text \<open>
  \<^verbatim>\<open>db.commit()\<close> flushes each object of which an attribute differs (by \<^verbatim>\<open>==\<close>) from the
  row it was loaded from with an UPDATE, which binds the balance as \<open>to_sql\<close> does; the
  column \<^verbatim>\<open>updated_at\<close> has \<^verbatim>\<open>onupdate=datetime.now\<close>. An object with no net change gets
  no UPDATE. The handlers assign to \<^verbatim>\<open>owner\<close> and \<^verbatim>\<open>balance\<close> only.
\<close>

definition unchanged :: "AccountDB \<Rightarrow> AccountDB \<Rightarrow> bool" where
  "unchanged old new = (new\<lparr>balance := balance old\<rparr> = old \<and> py_eq (balance new) (balance old))"

definition flush_row :: "datetime \<Rightarrow> AccountDB \<Rightarrow> AccountDB \<Rightarrow> AccountDB" where
  "flush_row now old new =
     (if unchanged old new then old
      else new\<lparr>balance := Option.bind (balance new) to_sql, updated_at := now\<rparr>)"

definition commit :: "datetime \<Rightarrow> AccountDB list \<Rightarrow> AccountDB list \<Rightarrow> AccountDB list" where
  "commit now rows sess = map (\<lambda>(old, new). flush_row now old new) (zip rows sess)"

text \<open>\<^verbatim>\<open>db.refresh(obj)\<close> reads the row of the object's primary key again.\<close>

definition refresh :: "int \<Rightarrow> AccountDB list \<Rightarrow> AccountDB option" where
  "refresh k rows = find (\<lambda>r. id_acc r = k) rows"

definition refresh_txn :: "int \<Rightarrow> TransactionDB list \<Rightarrow> TransactionDB option" where
  "refresh_txn j rows = find (\<lambda>t. id_txn t = j) rows"

text \<open>
  An \<^verbatim>\<open>Integer\<close> primary key of SQLite is the rowid: an insert without a key takes the
  largest key of the table plus one, and 1 in an empty table.
\<close>

definition next_rowid :: "int list \<Rightarrow> int" where
  "next_rowid ks = (case ks of [] \<Rightarrow> 1 | k # ks' \<Rightarrow> fold max ks' k + 1)"

subsection \<open>Account handlers\<close>

definition get_accounts_try :: "database \<Rightarrow> (AccountDB list) outcome" where
  "get_accounts_try db = (Inr (filter (\<lambda>r. deleted_at r = None) (accounts db)), db)"

definition get_accounts :: "database \<Rightarrow> (AccountDB list) outcome" where
  "get_accounts db = except_Exception (get_accounts_try db)"

definition create_account_try :: "AccountCreate \<Rightarrow> database \<Rightarrow> (string \<times> AccountDB option) outcome" where
  "create_account_try account db =
     (let k = next_rowid (map id_acc (accounts db));
          db_account = \<lparr>id_acc = k, balance = to_sql (balance_in account),
                        owner = owner_in account,
                        created_at = created_at_in account, updated_at = updated_at_in account,
                        deleted_at = deleted_at_in account\<rparr>;
          rows = accounts db @ [db_account]
      in (Inr (''Account created successfully'', refresh k rows), db\<lparr>accounts := rows\<rparr>))"

definition create_account :: "AccountCreate \<Rightarrow> database \<Rightarrow> (string \<times> AccountDB option) outcome" where
  "create_account account db = except_Exception (create_account_try account db)"

definition get_account_try :: "int \<Rightarrow> database \<Rightarrow> AccountDB outcome" where
  "get_account_try k db =
     (case first_active k (accounts db) of
        None \<Rightarrow> (Inl (HTTPException 404 (Literal ''Account not found'')), db)
      | Some account \<Rightarrow> (Inr account, db))"

definition get_account :: "int \<Rightarrow> database \<Rightarrow> AccountDB outcome" where
  "get_account k db = except_Exception (get_account_try k db)"

definition update_account_try ::
  "int \<Rightarrow> AccountCreate \<Rightarrow> datetime \<Rightarrow> database \<Rightarrow> (string \<times> AccountDB option) outcome" where
  "update_account_try k account now db =
     (case first_active k (accounts db) of
        None \<Rightarrow> (Inl (HTTPException 404 (Literal ''Account not found'')), db)
      | Some db_account \<Rightarrow>
          (let sess = setattr k (\<lambda>r. r\<lparr>owner := owner_in account\<rparr>) (accounts db);
               sess = setattr k (\<lambda>r. r\<lparr>balance := Some (balance_in account)\<rparr>) sess;
               rows = commit now (accounts db) sess
           in (Inr (''Account updated successfully'', refresh k rows), db\<lparr>accounts := rows\<rparr>)))"

definition update_account ::
  "int \<Rightarrow> AccountCreate \<Rightarrow> datetime \<Rightarrow> database \<Rightarrow> (string \<times> AccountDB option) outcome" where
  "update_account k account now db = except_Exception (update_account_try k account now db)"

text \<open>\<^verbatim>\<open>db.delete(db_account)\<close> followed by the commit is a DELETE of the row.\<close>

definition delete_account_try :: "int \<Rightarrow> database \<Rightarrow> string outcome" where
  "delete_account_try k db =
     (case first_active k (accounts db) of
        None \<Rightarrow> (Inl (HTTPException 404 (Literal ''Account not found'')), db)
      | Some db_account \<Rightarrow>
          (Inr ''Account deleted successfully'',
           db\<lparr>accounts := filter (\<lambda>r. id_acc r \<noteq> k) (accounts db)\<rparr>))"

definition delete_account :: "int \<Rightarrow> database \<Rightarrow> string outcome" where
  "delete_account k db = except_Exception (delete_account_try k db)"

text \<open>\<^verbatim>\<open>db_account.balance += amount\<close> raises \<^verbatim>\<open>TypeError\<close> when the balance is
  \<^verbatim>\<open>None\<close>; nothing has been committed then.\<close>

definition deposit_try ::
  "int \<Rightarrow> pyfloat \<Rightarrow> datetime \<Rightarrow> database \<Rightarrow> (string \<times> AccountDB option) outcome" where
  "deposit_try k x now db =
     (case first_active k (accounts db) of
        None \<Rightarrow> (Inl (HTTPException 404 (Literal ''Account not found'')), db)
      | Some db_account \<Rightarrow>
          (case getattr_balance k (accounts db) of
             None \<Rightarrow> (Inl TypeError, db)
           | Some b \<Rightarrow>
               (let sess = setattr k (\<lambda>r. r\<lparr>balance := Some (fadd b x)\<rparr>) (accounts db);
                    rows = commit now (accounts db) sess
                in (Inr (''Deposit successful'', refresh k rows), db\<lparr>accounts := rows\<rparr>))))"

definition deposit ::
  "int \<Rightarrow> pyfloat \<Rightarrow> datetime \<Rightarrow> database \<Rightarrow> (string \<times> AccountDB option) outcome" where
  "deposit k x now db = except_Exception (deposit_try k x now db)"

text \<open>\<^verbatim>\<open>db_account.balance < amount\<close> raises \<^verbatim>\<open>TypeError\<close> when the balance is
  \<^verbatim>\<open>None\<close>.\<close>

definition withdraw_try ::
  "int \<Rightarrow> pyfloat \<Rightarrow> datetime \<Rightarrow> database \<Rightarrow> (string \<times> AccountDB option) outcome" where
  "withdraw_try k x now db =
     (case first_active k (accounts db) of
        None \<Rightarrow> (Inl (HTTPException 404 (Literal ''Account not found'')), db)
      | Some db_account \<Rightarrow>
          (case getattr_balance k (accounts db) of
             None \<Rightarrow> (Inl TypeError, db)
           | Some b \<Rightarrow>
               if flt b x
               then (Inl (HTTPException 400 (Literal ''Insufficient funds'')), db)
               else (let sess = setattr k (\<lambda>r. r\<lparr>balance := Some (fsub b x)\<rparr>) (accounts db);
                         rows = commit now (accounts db) sess
                     in (Inr (''Withdrawal successful'', refresh k rows),
                         db\<lparr>accounts := rows\<rparr>))))"

definition withdraw ::
  "int \<Rightarrow> pyfloat \<Rightarrow> datetime \<Rightarrow> database \<Rightarrow> (string \<times> AccountDB option) outcome" where
  "withdraw k x now db = except_Exception (withdraw_try k x now db)"

text \<open>
  In \<^verbatim>\<open>transfer\<close> both queries run before the test for \<^verbatim>\<open>None\<close>. With
  \<^verbatim>\<open>account_id == target_account_id\<close> the two variables name one object of the session:
  the credit \<^verbatim>\<open>target_account.balance += amount\<close> reads the balance that the debit has
  just assigned. A \<^verbatim>\<open>TypeError\<close> of the credit leaves the debit uncommitted.
\<close>

definition transfer_try ::
  "int \<Rightarrow> int \<Rightarrow> pyfloat \<Rightarrow> datetime \<Rightarrow> database
     \<Rightarrow> (string \<times> AccountDB option \<times> AccountDB option) outcome" where
  "transfer_try k target x now db =
     (case (first_active k (accounts db), first_active target (accounts db)) of
        (Some source_account, Some target_account) \<Rightarrow>
          (case getattr_balance k (accounts db) of
             None \<Rightarrow> (Inl TypeError, db)
           | Some bs \<Rightarrow>
               if flt bs x
               then (Inl (HTTPException 400 (Literal ''Insufficient funds'')), db)
               else (let sess = setattr k (\<lambda>r. r\<lparr>balance := Some (fsub bs x)\<rparr>) (accounts db)
                     in case getattr_balance target sess of
                          None \<Rightarrow> (Inl TypeError, db)
                        | Some bt \<Rightarrow>
                            (let sess = setattr target (\<lambda>r. r\<lparr>balance := Some (fadd bt x)\<rparr>) sess;
                                 rows = commit now (accounts db) sess
                             in (Inr (''Transfer successful'', refresh k rows, refresh target rows),
                                 db\<lparr>accounts := rows\<rparr>))))
      | _ \<Rightarrow> (Inl (HTTPException 404 (Literal ''Account not found'')), db))"

definition transfer ::
  "int \<Rightarrow> int \<Rightarrow> pyfloat \<Rightarrow> datetime \<Rightarrow> database
     \<Rightarrow> (string \<times> AccountDB option \<times> AccountDB option) outcome" where
  "transfer k target x now db = except_Exception (transfer_try k target x now db)"

subsection \<open>Transaction handlers\<close>

definition get_transactions_try :: "int \<Rightarrow> database \<Rightarrow> (TransactionDB list) outcome" where
  "get_transactions_try k db =
     (Inr (filter (\<lambda>t. account_id t = k \<and> deleted_at_txn t = None) (transactions db)), db)"

definition get_transactions :: "int \<Rightarrow> database \<Rightarrow> (TransactionDB list) outcome" where
  "get_transactions k db = except_Exception (get_transactions_try k db)"

definition create_transaction_try ::
  "int \<Rightarrow> TransactionCreate \<Rightarrow> database \<Rightarrow> (string \<times> TransactionDB option) outcome" where
  "create_transaction_try k transaction db =
     (let j = next_rowid (map id_txn (transactions db));
          db_transaction =
            \<lparr>id_txn = j, account_id = k,
             amount = to_sql (amount_in transaction), type_txn = type_in transaction,
             created_at_txn = created_at_txn_in transaction,
             deleted_at_txn = deleted_at_txn_in transaction\<rparr>;
          rows = transactions db @ [db_transaction]
      in (Inr (''Transaction created successfully'', refresh_txn j rows),
          db\<lparr>transactions := rows\<rparr>))"

definition create_transaction ::
  "int \<Rightarrow> TransactionCreate \<Rightarrow> database \<Rightarrow> (string \<times> TransactionDB option) outcome" where
  "create_transaction k transaction db = except_Exception (create_transaction_try k transaction db)"

text \<open>\<^verbatim>\<open>delete_transaction\<close> does not use its parameter \<^verbatim>\<open>account_id\<close>.\<close>

definition delete_transaction_try :: "int \<Rightarrow> int \<Rightarrow> datetime \<Rightarrow> database \<Rightarrow> string outcome" where
  "delete_transaction_try k transaction_id now db =
     (case find (\<lambda>t. id_txn t = transaction_id \<and> deleted_at_txn t = None) (transactions db) of
        None \<Rightarrow> (Inl (HTTPException 404 (Literal ''Transaction not found'')), db)
      | Some db_transaction \<Rightarrow>
          (Inr ''Transaction deleted successfully'',
           db\<lparr>transactions :=
                 map (\<lambda>t. if id_txn t = transaction_id then t\<lparr>deleted_at_txn := Some now\<rparr> else t)
                     (transactions db)\<rparr>))"

definition delete_transaction :: "int \<Rightarrow> int \<Rightarrow> datetime \<Rightarrow> database \<Rightarrow> string outcome" where
  "delete_transaction k transaction_id now db =
     except_Exception (delete_transaction_try k transaction_id now db)"

subsection \<open>Notions used to state the properties\<close>

text \<open>The balance of the active account of key \<open>k\<close>: \<open>None\<close> when there is no such account
  or its balance is NULL.\<close>

definition active_balance :: "int \<Rightarrow> database \<Rightarrow> pyfloat option" where
  "active_balance k db = getattr_balance k (accounts db)"

text \<open>Invariant I1 of the specification: the balance of every active account is a number
  \<open>\<ge> 0\<close> (so neither NULL nor negative).\<close>

definition nonneg_balance :: "AccountDB \<Rightarrow> bool" where
  "nonneg_balance r = (case balance r of None \<Rightarrow> False | Some b \<Rightarrow> fle (Finite 0) b)"

definition nonneg_balances :: "database \<Rightarrow> bool" where
  "nonneg_balances db = list_all (\<lambda>r. deleted_at r = None \<longrightarrow> nonneg_balance r) (accounts db)"

text \<open>The requests that write to the database, and a run of requests from a database.\<close>

datatype request =
    Create AccountCreate
  | Update int AccountCreate
  | Delete int
  | Deposit int pyfloat
  | Withdraw int pyfloat
  | Transfer int int pyfloat
  | Create_transaction int TransactionCreate
  | Delete_transaction int int

fun handle :: "datetime \<Rightarrow> request \<Rightarrow> database \<Rightarrow> database" where
  "handle now (Create account) db = snd (create_account account db)"
| "handle now (Update k account) db = snd (update_account k account now db)"
| "handle now (Delete k) db = snd (delete_account k db)"
| "handle now (Deposit k x) db = snd (deposit k x now db)"
| "handle now (Withdraw k x) db = snd (withdraw k x now db)"
| "handle now (Transfer k target x) db = snd (transfer k target x now db)"
| "handle now (Create_transaction k transaction) db = snd (create_transaction k transaction db)"
| "handle now (Delete_transaction k transaction_id) db = snd (delete_transaction k transaction_id now db)"

text \<open>The inputs on which I1 is kept: the code itself checks none of them. A balance
  given to create or update and an amount deposited are numbers \<open>\<ge> 0\<close>; an amount
  withdrawn is neither NaN nor \<^verbatim>\<open>inf\<close>; an amount transferred is a number \<open>\<ge> 0\<close> other
  than \<^verbatim>\<open>inf\<close>.\<close>

fun nonneg_request :: "request \<Rightarrow> bool" where
  "nonneg_request (Create account) = fle (Finite 0) (balance_in account)"
| "nonneg_request (Update k account) = fle (Finite 0) (balance_in account)"
| "nonneg_request (Deposit k x) = fle (Finite 0) x"
| "nonneg_request (Withdraw k x) = (x \<noteq> NaN \<and> x \<noteq> PInf)"
| "nonneg_request (Transfer k target x) = (fle (Finite 0) x \<and> x \<noteq> PInf)"
| "nonneg_request _ = True"

fun run :: "(datetime \<times> request) list \<Rightarrow> database \<Rightarrow> database" where
  "run [] db = db"
| "run ((now, rq) # rest) db = run rest (handle now rq db)"

text \<open>The two exceptions of the try blocks as the catch-all clause hands them on.\<close>

abbreviation not_found_500 :: py_exception where
  "not_found_500 \<equiv> HTTPException 500 (Str (HTTPException 404 (Literal ''Account not found'')))"

abbreviation insufficient_500 :: py_exception where
  "insufficient_500 \<equiv> HTTPException 500 (Str (HTTPException 400 (Literal ''Insufficient funds'')))"

text \<open>Request bodies and rows of the scenarios, with integers for balances.\<close>

definition account_of :: "string \<Rightarrow> int \<Rightarrow> AccountCreate" where
  "account_of name b =
     \<lparr>owner_in = name, balance_in = double_of_int b, created_at_in = 0, updated_at_in = 0,
      deleted_at_in = None\<rparr>"

definition row_of :: "int \<Rightarrow> string \<Rightarrow> int \<Rightarrow> AccountDB" where
  "row_of k name b =
     \<lparr>id_acc = k, balance = Some (double_of_int b), owner = name, created_at = 0,
      updated_at = 0, deleted_at = None\<rparr>"

definition db_alice :: database where
  "db_alice = \<lparr>accounts = [row_of 1 ''Alice'' 100], transactions = []\<rparr>"

definition db_alice_bob :: database where
  "db_alice_bob = \<lparr>accounts = [row_of 1 ''Alice'' 50, row_of 2 ''Bob'' 0], transactions = []\<rparr>"

section \<open>Lemmas on the floating-point numbers\<close>

lemma excess_bits_small: "a < 2 ^ 53 \<Longrightarrow> excess_bits a = 0"
  by (simp add: excess_bits.simps)

lemma excess_bits_shift: "2 ^ 53 \<le> a \<Longrightarrow> excess_bits (a * 2 ^ j) = excess_bits a + j"
proof (induction j)
  case 0
  then show ?case by simp
next
  case (Suc j)
  have le1: "a \<le> a * 2 ^ Suc j" by simp
  have "(2::nat) ^ 53 \<le> a * 2 ^ Suc j" by (rule le_trans [OF Suc.prems le1])
  then have "excess_bits (a * 2 ^ Suc j) = Suc (excess_bits ((a * 2 ^ Suc j) div 2))"
    by (subst excess_bits.simps) simp
  also have "(a * 2 ^ Suc j) div 2 = a * 2 ^ j" by simp
  finally show ?case using Suc by simp
qed

lemma excess_bits_le: "a < 2 ^ 53 \<Longrightarrow> excess_bits (a * 2 ^ j) \<le> j"
proof (induction j)
  case 0
  then show ?case by (simp add: excess_bits_small)
next
  case (Suc j)
  show ?case
  proof (cases "a * 2 ^ Suc j < 2 ^ 53")
    case True
    then show ?thesis by (simp add: excess_bits_small)
  next
    case False
    then have "excess_bits (a * 2 ^ Suc j) = Suc (excess_bits ((a * 2 ^ Suc j) div 2))"
      by (subst excess_bits.simps) simp
    also have "(a * 2 ^ Suc j) div 2 = a * 2 ^ j" by simp
    finally show ?thesis using Suc by simp
  qed
qed

lemma round_mag_small: "a < 2 ^ 53 \<Longrightarrow> round_mag a = a"
  by (simp add: round_mag_def excess_bits_small)

lemma round_mag_exact:
  assumes "a < 2 ^ 53"
  shows "round_mag (a * 2 ^ j) = a * 2 ^ j"
proof -
  define s where "s = excess_bits (a * 2 ^ j)"
  have "s \<le> j" unfolding s_def using assms by (rule excess_bits_le)
  then obtain d where j: "j = s + d" using le_Suc_ex by blast
  have eq: "a * 2 ^ j = (a * 2 ^ d) * 2 ^ s" by (simp add: j power_add mult.assoc mult.commute)
  have "(a * 2 ^ j) mod 2 ^ s = 0" "(a * 2 ^ j) div 2 ^ s = a * 2 ^ d"
    unfolding eq by simp_all
  then show ?thesis
    unfolding round_mag_def Let_def s_def [symmetric] by (simp add: eq)
qed

lemma round_mag_shift:
  assumes "2 ^ 53 \<le> a"
  shows "round_mag (a * 2 ^ j) = round_mag a * 2 ^ j"
proof -
  define s where "s = excess_bits a"
  define c :: nat where "c = 2 ^ j"
  define b :: nat where "b = 2 ^ s"
  have c: "0 < c" by (simp add: c_def)
  have sj: "excess_bits (a * 2 ^ j) = s + j" unfolding s_def using assms by (rule excess_bits_shift)
  have p: "(2::nat) ^ (s + j) = b * c" by (simp only: power_add b_def c_def)
  have d: "(a * c) div (b * c) = a div b" using c by (simp only: div_mult_mult2) 
  have m: "(a * c) mod (b * c) = (a mod b) * c" by (simp only: mod_mult_mult2)
  have c1: "2 * ((a mod b) * c) < b * c \<longleftrightarrow> 2 * (a mod b) < b"
    using c by (simp only: mult.assoc [symmetric] mult_less_cancel2) simp
  have c2: "2 * ((a mod b) * c) = b * c \<longleftrightarrow> 2 * (a mod b) = b"
    using c by (simp only: mult.assoc [symmetric] mult_cancel2) simp
  have "round_mag (a * c) =
          (if 2 * (a mod b) < b \<or> (2 * (a mod b) = b \<and> even (a div b)) then a div b else a div b + 1) * (b * c)"
    unfolding round_mag_def Let_def c_def [symmetric] sj [unfolded c_def [symmetric]] p d m c1 c2 ..
  also have "\<dots> = round_mag a * c"
    unfolding round_mag_def Let_def s_def [symmetric] b_def [symmetric] by (simp only: mult.assoc)
  finally show ?thesis unfolding c_def .
qed

lemma round_mag_scale: "round_mag (a * 2 ^ j) = round_mag a * 2 ^ j"
proof (cases "a < 2 ^ 53")
  case True
  then show ?thesis by (simp add: round_mag_exact round_mag_small)
next
  case False
  then show ?thesis by (simp add: round_mag_shift)
qed

lemma double_of_int_eval:
  assumes "int (round_mag (nat \<bar>k\<bar>)) < 2 ^ 1024"
  shows "double_of_int k =
           exact_int (if k < 0 then - int (round_mag (nat \<bar>k\<bar>)) else int (round_mag (nat \<bar>k\<bar>)))"
proof -
  have n: "nat \<bar>k * 2 ^ 1074\<bar> = nat \<bar>k\<bar> * 2 ^ 1074"
    by (simp add: abs_mult nat_mult_distrib nat_power_eq)
  have m: "int (round_mag (nat \<bar>k * 2 ^ 1074\<bar>)) = int (round_mag (nat \<bar>k\<bar>)) * 2 ^ 1074"
    unfolding n round_mag_scale by simp
  have "int (round_mag (nat \<bar>k\<bar>)) * 2 ^ 1074 < 2 ^ 1024 * 2 ^ 1074"
    using assms by (simp only: mult_less_cancel_right) simp
  then have o: "\<not> (2::int) ^ 2098 \<le> int (round_mag (nat \<bar>k\<bar>)) * 2 ^ 1074"
    by (simp only: power_add [symmetric]) simp
  have s: "k * 2 ^ 1074 < 0 \<longleftrightarrow> k < 0" by (simp add: mult_less_0_iff)
  show ?thesis
    unfolding double_of_int_def round53_def Let_def m s exact_int_def using o by simp
qed

lemma fadd_exact_int: "fadd (exact_int a) (exact_int b) = double_of_int (a + b)"
  by (simp add: exact_int_def double_of_int_def distrib_right)

lemma fsub_exact_int: "fsub (exact_int a) (exact_int b) = double_of_int (a - b)"
  by (simp add: fsub_def exact_int_def double_of_int_def left_diff_distrib)

lemma flt_exact_int: "flt (exact_int a) (exact_int b) = (a < b)"
  by (simp add: exact_int_def)

lemma exact_int_eq: "(exact_int a = exact_int b) = (a = b)"
  by (simp add: exact_int_def)

lemma exact_int_distinct:
  "exact_int a \<noteq> NaN" "exact_int a \<noteq> PInf" "exact_int a \<noteq> NInf"
  "NaN \<noteq> exact_int a" "PInf \<noteq> exact_int a" "NInf \<noteq> exact_int a"
  by (simp_all add: exact_int_def)

lemma fle_zero_exact_int: "fle (Finite 0) (exact_int a) = (0 \<le> a)"
  by (simp add: exact_int_def fle_def not_less zero_le_mult_iff)

lemmas float_evals =
  double_of_int_eval round_mag_def excess_bits.simps fadd_exact_int fsub_exact_int
  flt_exact_int exact_int_eq exact_int_distinct fle_zero_exact_int to_sql_def Let_def

lemma fadd_NaN_right [simp]: "fadd x NaN = NaN"
  by (cases x) simp_all

lemma flt_NaN_right [simp]: "flt x NaN = False"
  by (cases x) simp_all

lemma fle_zero_round53: "0 \<le> n \<Longrightarrow> fle (Finite 0) (round53 n)"
  by (simp add: round53_def fle_def Let_def)

lemma fle_zero_cases:
  "fle (Finite 0) v \<longleftrightarrow> v = PInf \<or> (\<exists>n. v = Finite n \<and> 0 \<le> n)"
  by (cases v) (auto simp: fle_def)

lemma fle_zero_fadd:
  assumes "fle (Finite 0) a" and "fle (Finite 0) b"
  shows "fle (Finite 0) (fadd a b)"
proof -
  consider "a = PInf" | "b = PInf" | n m where "a = Finite n" "0 \<le> n" "b = Finite m" "0 \<le> m"
    using assms by (auto simp: fle_zero_cases)
  then show ?thesis
  proof cases
    case 1
    then show ?thesis using assms(2) by (cases b) (simp_all add: fle_def)
  next
    case 2
    then show ?thesis using assms(1) by (cases a) (simp_all add: fle_def)
  next
    case 3
    then show ?thesis by (simp add: fle_zero_round53)
  qed
qed

lemma fle_zero_fsub:
  assumes "fle (Finite 0) b" and "x \<noteq> NaN" and "x \<noteq> PInf" and "\<not> flt b x"
  shows "fle (Finite 0) (fsub b x)"
proof (cases x)
  case (Finite m)
  show ?thesis
  proof (cases b)
    case b: (Finite n)
    then have "0 \<le> n + - m" using assms(4) Finite by simp
    then show ?thesis using b Finite by (simp add: fsub_def fle_zero_round53)
  next
    case PInf
    then show ?thesis using Finite by (simp add: fsub_def fle_def)
  qed (use assms(1) in \<open>simp_all add: fle_def\<close>)
next
  case NInf
  then show ?thesis using assms(1) by (cases b) (simp_all add: fsub_def fle_def)
qed (use assms in simp_all)

lemma to_sql_fle_zero: "fle (Finite 0) v \<Longrightarrow> to_sql v = Some v"
  by (auto simp: to_sql_def fle_def)

lemma py_eq_same: "py_eq a b \<Longrightarrow> a = b \<and> Option.bind a to_sql = a"
  by (cases a; cases b) (auto simp: to_sql_def)

section \<open>Lemmas on the session\<close>

lemmas handler_defs =
  get_accounts_def get_accounts_try_def create_account_def create_account_try_def
  get_account_def get_account_try_def update_account_def update_account_try_def
  delete_account_def delete_account_try_def deposit_def deposit_try_def
  withdraw_def withdraw_try_def transfer_def transfer_try_def
  create_transaction_def create_transaction_try_def
  delete_transaction_def delete_transaction_try_def
  get_transactions_def get_transactions_try_def

lemmas eval_defs =
  handler_defs empty_db_def account_of_def row_of_def first_active_def getattr_balance_def
  setattr_def commit_def flush_row_def unchanged_def refresh_def refresh_txn_def next_rowid_def
  db_alice_def db_alice_bob_def active_balance_def float_evals

lemma commit_map: "commit now rows (map g rows) = map (\<lambda>r. flush_row now r (g r)) rows"
  by (induction rows) (simp_all add: commit_def)

lemma commit_setattr:
  "commit now rows (setattr k f rows) = map (\<lambda>r. flush_row now r (if id_acc r = k then f r else r)) rows"
  unfolding setattr_def by (rule commit_map)

lemma commit_setattr2:
  "commit now rows (setattr t g (setattr k f rows)) =
     map (\<lambda>r. flush_row now r
            (let r' = (if id_acc r = k then f r else r) in if id_acc r' = t then g r' else r')) rows"
  unfolding setattr_def map_map comp_def Let_def by (rule commit_map)

lemma first_active_map:
  assumes "\<And>r. id_acc (h r) = id_acc r" and "\<And>r. deleted_at (h r) = deleted_at r"
  shows "first_active k (map h rows) = map_option h (first_active k rows)"
  unfolding first_active_def by (induction rows) (simp_all add: assms)

lemma flush_row_id [simp]: "id_acc new = id_acc old \<Longrightarrow> id_acc (flush_row now old new) = id_acc old"
  by (simp add: flush_row_def)

lemma flush_row_deleted [simp]:
  "deleted_at new = deleted_at old \<Longrightarrow> deleted_at (flush_row now old new) = deleted_at old"
  by (simp add: flush_row_def)

lemma flush_row_balance [simp]:
  "balance (flush_row now old new) = Option.bind (balance new) to_sql"
  using py_eq_same [of "balance new" "balance old"] by (auto simp: flush_row_def unchanged_def)

lemma flush_row_same [simp]: "py_eq (balance r) (balance r) \<Longrightarrow> flush_row now r r = r"
  by (simp add: flush_row_def unchanged_def)

lemma first_active_Some:
  "first_active k rows = Some a \<Longrightarrow> a \<in> set rows \<and> id_acc a = k \<and> deleted_at a = None"
  unfolding first_active_def by (auto simp: find_Some_iff)

lemma first_active_setattr:
  assumes "\<And>r. id_acc (f r) = id_acc r" and "\<And>r. deleted_at (f r) = deleted_at r"
  shows "first_active j (setattr k f rows) =
           map_option (\<lambda>r. if id_acc r = k then f r else r) (first_active j rows)"
  unfolding setattr_def by (rule first_active_map) (simp_all add: assms)

lemma getattr_balance_Some:
  "first_active k rows = Some a \<Longrightarrow> getattr_balance k rows = balance a"
  by (simp add: getattr_balance_def)

lemma getattr_balance_None: "first_active k rows = None \<Longrightarrow> getattr_balance k rows = None"
  by (simp add: getattr_balance_def)

lemma getattr_balance_setattr:
  assumes "first_active j rows = Some a"
  shows "getattr_balance j (setattr k (\<lambda>r. r\<lparr>balance := Some v\<rparr>) rows) =
           (if j = k then Some v else balance a)"
  using assms first_active_Some [OF assms]
  by (simp add: getattr_balance_def first_active_setattr)

lemma except_Exception_snd [simp]: "snd (except_Exception p) = snd p"
  by (cases p, cases "fst p") auto

lemma next_rowid_greater: "k \<in> set ks \<Longrightarrow> k < next_rowid ks"
proof (cases ks)
  case Nil
  assume "k \<in> set ks" with Nil show ?thesis by simp
next
  case (Cons a as)
  assume "k \<in> set ks"
  then have "k \<le> Max (set (a # as))" using Cons by (intro Max_ge) simp_all
  also have "Max (set (a # as)) = fold max as a" by (rule Max.set_eq_fold)
  finally show ?thesis using Cons by (simp add: next_rowid_def)
qed



lemma commit_unchanged:
  assumes "\<And>r. r \<in> set rows \<Longrightarrow> flush_row now r (g r) = r"
  shows "commit now rows (map g rows) = rows"
  unfolding commit_map using assms by (induction rows) simp_all

lemma find_append_fresh:
  assumes "\<And>y. y \<in> set xs \<Longrightarrow> \<not> P y" and "P x"
  shows "find P (xs @ [x]) = Some x"
  using assms by (induction xs) simp_all

section \<open>The invariant along a run\<close>

lemma nonneg_flush:
  assumes "deleted_at new = deleted_at old"
    and "deleted_at old = None \<longrightarrow> nonneg_balance old"
    and "new = old \<or> (\<exists>v. balance new = Some v \<and> fle (Finite 0) v)"
  shows "deleted_at (flush_row now old new) = None \<longrightarrow> nonneg_balance (flush_row now old new)"
  using assms
  by (auto simp: nonneg_balance_def to_sql_fle_zero flush_row_def split: option.splits)

lemma nonneg_map:
  assumes "list_all (\<lambda>r. deleted_at r = None \<longrightarrow> nonneg_balance r) rows"
    and "\<And>r. r \<in> set rows \<Longrightarrow> deleted_at (g r) = deleted_at r"
    and "\<And>r. r \<in> set rows \<Longrightarrow> g r = r \<or> (\<exists>v. balance (g r) = Some v \<and> fle (Finite 0) v)"
  shows "list_all (\<lambda>r. deleted_at r = None \<longrightarrow> nonneg_balance r)
           (map (\<lambda>r. flush_row now r (g r)) rows)"
  unfolding list_all_iff
proof
  fix r' assume "r' \<in> set (map (\<lambda>r. flush_row now r (g r)) rows)"
  then obtain r where r: "r \<in> set rows" "r' = flush_row now r (g r)" by auto
  have "deleted_at r = None \<longrightarrow> nonneg_balance r" using assms(1) r(1) by (simp add: list_all_iff)
  then show "deleted_at r' = None \<longrightarrow> nonneg_balance r'"
    unfolding r(2) using assms(2) [OF r(1)] assms(3) [OF r(1)] by (intro nonneg_flush)
qed

lemma nonneg_active:
  assumes "nonneg_balances db" and "first_active k (accounts db) = Some a"
    and "getattr_balance k (accounts db) = Some b"
  shows "fle (Finite 0) b"
proof -
  have "a \<in> set (accounts db)" "deleted_at a = None" using first_active_Some [OF assms(2)] by simp_all
  then have "nonneg_balance a" using assms(1) by (auto simp: nonneg_balances_def list_all_iff)
  moreover have "balance a = Some b" using assms(2,3) by (simp add: getattr_balance_def)
  ultimately show ?thesis by (simp add: nonneg_balance_def)
qed

lemma nonneg_create:
  assumes "nonneg_balances db" and "fle (Finite 0) (balance_in account)"
  shows "nonneg_balances (snd (create_account account db))"
  using assms
  by (simp add: nonneg_balances_def nonneg_balance_def create_account_def create_account_try_def
      Let_def to_sql_fle_zero)

lemma nonneg_update:
  assumes "nonneg_balances db" and "fle (Finite 0) (balance_in account)"
  shows "nonneg_balances (snd (update_account k account now db))"
proof (cases "first_active k (accounts db)")
  case None
  then show ?thesis using assms(1) by (simp add: update_account_def update_account_try_def)
next
  case (Some a)
  have "list_all (\<lambda>r. deleted_at r = None \<longrightarrow> nonneg_balance r)
          (commit now (accounts db)
             (setattr k (\<lambda>r. r\<lparr>balance := Some (balance_in account)\<rparr>)
                (setattr k (\<lambda>r. r\<lparr>owner := owner_in account\<rparr>) (accounts db))))"
    unfolding commit_setattr2
    by (rule nonneg_map) (use assms in \<open>auto simp: nonneg_balances_def Let_def\<close>)
  then show ?thesis using Some
    by (simp add: update_account_def update_account_try_def nonneg_balances_def Let_def)
qed

lemma nonneg_delete:
  assumes "nonneg_balances db"
  shows "nonneg_balances (snd (delete_account k db))"
  using assms
  by (auto simp: nonneg_balances_def delete_account_def delete_account_try_def list_all_iff
      split: option.splits)

lemma nonneg_deposit:
  assumes "nonneg_balances db" and "fle (Finite 0) x"
  shows "nonneg_balances (snd (deposit k x now db))"
proof (cases "first_active k (accounts db)")
  case None
  then show ?thesis using assms(1) by (simp add: deposit_def deposit_try_def)
next
  case (Some a)
  show ?thesis
  proof (cases "getattr_balance k (accounts db)")
    case None
    then show ?thesis using Some assms(1) by (simp add: deposit_def deposit_try_def)
  next
    case bal: (Some b)
    have "fle (Finite 0) (fadd b x)"
      using nonneg_active [OF assms(1) Some bal] assms(2) by (rule fle_zero_fadd)
    then have "list_all (\<lambda>r. deleted_at r = None \<longrightarrow> nonneg_balance r)
          (commit now (accounts db) (setattr k (\<lambda>r. r\<lparr>balance := Some (fadd b x)\<rparr>) (accounts db)))"
      unfolding commit_setattr
      by (intro nonneg_map) (use assms(1) in \<open>auto simp: nonneg_balances_def\<close>)
    then show ?thesis using Some bal
      by (simp add: deposit_def deposit_try_def nonneg_balances_def Let_def)
  qed
qed

lemma nonneg_withdraw:
  assumes "nonneg_balances db" and "x \<noteq> NaN" and "x \<noteq> PInf"
  shows "nonneg_balances (snd (withdraw k x now db))"
proof (cases "first_active k (accounts db)")
  case None
  then show ?thesis using assms(1) by (simp add: withdraw_def withdraw_try_def)
next
  case (Some a)
  show ?thesis
  proof (cases "getattr_balance k (accounts db)")
    case None
    then show ?thesis using Some assms(1) by (simp add: withdraw_def withdraw_try_def)
  next
    case bal: (Some b)
    show ?thesis
    proof (cases "flt b x")
      case True
      then show ?thesis using Some bal assms(1) by (simp add: withdraw_def withdraw_try_def)
    next
      case False
      have "fle (Finite 0) (fsub b x)"
        using nonneg_active [OF assms(1) Some bal] assms(2,3) False by (rule fle_zero_fsub)
      then have "list_all (\<lambda>r. deleted_at r = None \<longrightarrow> nonneg_balance r)
            (commit now (accounts db) (setattr k (\<lambda>r. r\<lparr>balance := Some (fsub b x)\<rparr>) (accounts db)))"
        unfolding commit_setattr
        by (intro nonneg_map) (use assms(1) in \<open>auto simp: nonneg_balances_def\<close>)
      then show ?thesis using Some bal False
        by (simp add: withdraw_def withdraw_try_def nonneg_balances_def Let_def)
    qed
  qed
qed

lemma nonneg_transfer:
  assumes "nonneg_balances db" and "fle (Finite 0) x" and "x \<noteq> PInf"
  shows "nonneg_balances (snd (transfer k target x now db))"
proof (cases "first_active k (accounts db)")
  case None
  then show ?thesis using assms(1) by (simp add: transfer_def transfer_try_def)
next
  case src: (Some a)
  show ?thesis
  proof (cases "first_active target (accounts db)")
    case None
    then show ?thesis using assms(1) src by (simp add: transfer_def transfer_try_def)
  next
    case tgt: (Some t)
    show ?thesis
    proof (cases "getattr_balance k (accounts db)")
      case None
      then show ?thesis using src tgt assms(1) by (simp add: transfer_def transfer_try_def)
    next
      case bal: (Some bs)
      show ?thesis
      proof (cases "flt bs x")
        case True
        then show ?thesis using src tgt bal assms(1) by (simp add: transfer_def transfer_try_def)
      next
        case False
        have xn: "x \<noteq> NaN" using assms(2) by (simp add: fle_def)
        have v1: "fle (Finite 0) (fsub bs x)"
          using nonneg_active [OF assms(1) src bal] xn assms(3) False by (rule fle_zero_fsub)
        let ?sess = "setattr k (\<lambda>r. r\<lparr>balance := Some (fsub bs x)\<rparr>) (accounts db)"
        show ?thesis
        proof (cases "getattr_balance target ?sess")
          case None
          then show ?thesis using src tgt bal False assms(1)
            by (simp add: transfer_def transfer_try_def Let_def)
        next
          case cred: (Some bt)
          have "fle (Finite 0) bt"
          proof (cases "target = k")
            case True
            then show ?thesis using cred v1 by (simp add: getattr_balance_setattr [OF src])
          next
            case False
            then have "getattr_balance target (accounts db) = Some bt"
              using cred by (simp add: getattr_balance_setattr [OF tgt] getattr_balance_Some [OF tgt])
            then show ?thesis using nonneg_active [OF assms(1) tgt] by simp
          qed
          then have v2: "fle (Finite 0) (fadd bt x)" using assms(2) by (rule fle_zero_fadd)
          have "list_all (\<lambda>r. deleted_at r = None \<longrightarrow> nonneg_balance r)
              (commit now (accounts db)
                 (setattr target (\<lambda>r. r\<lparr>balance := Some (fadd bt x)\<rparr>) ?sess))"
            unfolding commit_setattr2
            by (intro nonneg_map) (use assms(1) v1 v2 in \<open>auto simp: nonneg_balances_def Let_def\<close>)
          then show ?thesis using src tgt bal False cred
            by (simp add: transfer_def transfer_try_def nonneg_balances_def Let_def)
        qed
      qed
    qed
  qed
qed

lemma nonneg_handle:
  assumes "nonneg_balances db" and "nonneg_request rq"
  shows "nonneg_balances (handle now rq db)"
proof (cases rq)
  case (Create account)
  then show ?thesis using assms nonneg_create by simp
next
  case (Update k account)
  then show ?thesis using assms nonneg_update by simp
next
  case (Delete k)
  then show ?thesis using assms nonneg_delete by simp
next
  case (Deposit k x)
  then show ?thesis using assms nonneg_deposit by simp
next
  case (Withdraw k x)
  then show ?thesis using assms nonneg_withdraw by simp
next
  case (Transfer k target x)
  then show ?thesis using assms nonneg_transfer by simp
next
  case (Create_transaction k transaction)
  then show ?thesis using assms(1)
    by (simp add: nonneg_balances_def create_transaction_def create_transaction_try_def Let_def)
next
  case (Delete_transaction k transaction_id)
  then show ?thesis using assms(1)
    by (simp add: nonneg_balances_def delete_transaction_def delete_transaction_try_def
        split: option.splits)
qed

section \<open>Failures of the handlers\<close>

lemma handler_error_status:
  assumes "except_Exception p = (Inl e, db')"
  shows "status_code e = Some 500 \<and> db' = snd p"
  using assms by (cases p, cases "fst p") auto

lemma handler_failure:
  "get_account k db = (Inl e, db') \<Longrightarrow> status_code e = Some 500 \<and> db' = db"
  "update_account k account now db = (Inl e, db') \<Longrightarrow> status_code e = Some 500 \<and> db' = db"
  "delete_account k db = (Inl e, db') \<Longrightarrow> status_code e = Some 500 \<and> db' = db"
  "deposit k x now db = (Inl e, db') \<Longrightarrow> status_code e = Some 500 \<and> db' = db"
  "withdraw k x now db = (Inl e, db') \<Longrightarrow> status_code e = Some 500 \<and> db' = db"
  "transfer k target x now db = (Inl e, db') \<Longrightarrow> status_code e = Some 500 \<and> db' = db"
  unfolding get_account_def update_account_def delete_account_def deposit_def withdraw_def
    transfer_def
  by (auto dest!: handler_error_status
      simp: get_account_try_def update_account_try_def delete_account_try_def
      deposit_try_def withdraw_try_def transfer_try_def Let_def split: option.splits if_splits)

section \<open>The transfer\<close>




section \<open>The claims\<close>

subsection \<open>C1: non-negative balances\<close>

text \<open>
  The code validates neither the balance of \<^verbatim>\<open>create_account\<close> and \<^verbatim>\<open>update_account\<close>
  nor the amount of \<^verbatim>\<open>deposit\<close>, \<^verbatim>\<open>withdraw\<close> and \<^verbatim>\<open>transfer\<close>. Creating an account
  with balance \<open>-1\<close> in the empty database commits an active account whose balance is
  negative.
\<close>

theorem create_negative_balance:
  "snd (create_account (account_of ''Eve'' (- 1)) empty_db)
     = \<lparr>accounts = [row_of 1 ''Eve'' (- 1)], transactions = []\<rparr>
   \<and> active_balance 1 (snd (create_account (account_of ''Eve'' (- 1)) empty_db))
     = Some (double_of_int (- 1))
   \<and> flt (double_of_int (- 1)) (double_of_int 0)
   \<and> \<not> nonneg_balances (snd (create_account (account_of ''Eve'' (- 1)) empty_db))"
  by (simp add: eval_defs nonneg_balances_def nonneg_balance_def)

text \<open>
  Claim C1, as the code keeps it. From a database in which the balance of every active
  account is a number \<open>\<ge> 0\<close>, every run of requests ends in such a database, provided
  that each \<^verbatim>\<open>create_account\<close> and \<^verbatim>\<open>update_account\<close> is given a balance that is a
  number \<open>\<ge> 0\<close>, each \<^verbatim>\<open>deposit\<close> an amount that is a number \<open>\<ge> 0\<close>, each
  \<^verbatim>\<open>withdraw\<close> an amount that is neither NaN nor \<^verbatim>\<open>inf\<close>, and each \<^verbatim>\<open>transfer\<close> an
  amount that is a number \<open>\<ge> 0\<close> other than \<^verbatim>\<open>inf\<close>. \<^verbatim>\<open>delete_account\<close> and the
  transaction requests need no condition. The runs contain all their prefixes, so this
  holds after every committed request.
\<close>

theorem nonneg_balances_reachable:
  assumes "nonneg_balances db" and "list_all (\<lambda>(now, rq). nonneg_request rq) reqs"
  shows "nonneg_balances (run reqs db)"
  using assms
proof (induction reqs arbitrary: db)
  case Nil
  then show ?case by simp
next
  case (Cons p reqs)
  obtain now rq where p: "p = (now, rq)" by (cases p)
  have "nonneg_balances (handle now rq db)"
    using Cons.prems p by (intro nonneg_handle) simp_all
  then show ?case using Cons.IH Cons.prems(2) p by simp
qed

text \<open>
  None of the conditions can be dropped: an update to \<open>-1\<close>, a deposit of \<open>-20\<close> into
  10, a transfer of \<open>-20\<close> between accounts that hold 10, and a withdrawal of NaN each
  commit an active account whose balance is negative or NULL.
\<close>

lemma update_negative_balance:
  "snd (update_account 1 (account_of ''Alice'' (- 1)) 5 db_alice)
     = \<lparr>accounts = [(row_of 1 ''Alice'' (- 1))\<lparr>updated_at := 5\<rparr>], transactions = []\<rparr>"
  by (simp add: eval_defs)

lemma deposit_below_zero:
  "snd (deposit 1 (double_of_int (- 20)) 5 \<lparr>accounts = [row_of 1 ''A'' 10], transactions = []\<rparr>)
     = \<lparr>accounts = [(row_of 1 ''A'' (- 10))\<lparr>updated_at := 5\<rparr>], transactions = []\<rparr>"
  by (simp add: eval_defs)

lemma transfer_below_zero:
  "snd (transfer 1 2 (double_of_int (- 20)) 5
          \<lparr>accounts = [row_of 1 ''A'' 10, row_of 2 ''B'' 10], transactions = []\<rparr>)
     = \<lparr>accounts = [(row_of 1 ''A'' 30)\<lparr>updated_at := 5\<rparr>,
                     (row_of 2 ''B'' (- 10))\<lparr>updated_at := 5\<rparr>], transactions = []\<rparr>"
  by (simp add: eval_defs)

lemma withdraw_nan_commits_null:
  "withdraw 1 NaN 5 \<lparr>accounts = [row_of 1 ''A'' 10], transactions = []\<rparr>
     = (Inr (''Withdrawal successful'',
             Some ((row_of 1 ''A'' 10)\<lparr>balance := None, updated_at := 5\<rparr>)),
        \<lparr>accounts = [(row_of 1 ''A'' 10)\<lparr>balance := None, updated_at := 5\<rparr>],
         transactions = []\<rparr>)"
  by (simp add: eval_defs fsub_def)

text \<open>A run of the six account requests from the empty database.\<close>

theorem nonneg_balances_reachable_witness:
  "nonneg_balances empty_db \<and>
   list_all (\<lambda>(now, rq). nonneg_request rq)
     [(1, Create (account_of ''Alice'' 100)), (2, Create (account_of ''Bob'' 0)),
      (3, Deposit 1 (double_of_int 20)), (4, Withdraw 1 (double_of_int 500)),
      (5, Withdraw 1 (double_of_int 70)), (6, Transfer 1 2 (double_of_int 50)),
      (7, Update 2 (account_of ''Bob'' 5)), (8, Delete 1)] \<and>
   nonneg_balances (run
     [(1, Create (account_of ''Alice'' 100)), (2, Create (account_of ''Bob'' 0)),
      (3, Deposit 1 (double_of_int 20)), (4, Withdraw 1 (double_of_int 500)),
      (5, Withdraw 1 (double_of_int 70)), (6, Transfer 1 2 (double_of_int 50)),
      (7, Update 2 (account_of ''Bob'' 5)), (8, Delete 1)] empty_db)"
proof -
  have h1: "nonneg_balances empty_db" by (simp add: nonneg_balances_def empty_db_def)
  have h2: "list_all (\<lambda>(now, rq). nonneg_request rq)
     [(1, Create (account_of ''Alice'' 100)), (2, Create (account_of ''Bob'' 0)),
      (3, Deposit 1 (double_of_int 20)), (4, Withdraw 1 (double_of_int 500)),
      (5, Withdraw 1 (double_of_int 70)), (6, Transfer 1 2 (double_of_int 50)),
      (7, Update 2 (account_of ''Bob'' 5)), (8, Delete 1)]"
    by (simp add: account_of_def float_evals)
  show ?thesis using h1 h2 nonneg_balances_reachable [OF h1 h2] by simp
qed

subsection \<open>C2: a transfer moves the amount\<close>




subsection \<open>C3: a withdrawal beyond the balance\<close>

text \<open>
  Claim C3, at the scenario of the specification: account 1 of Alice holds 100 and 150 are
  withdrawn. The try block raises the exception of status 400 with detail
  \<^verbatim>\<open>Insufficient funds\<close>; the catch-all clause of the same handler turns it into an
  exception of status 500. The database, and with it the balance, is unchanged.
\<close>

theorem withdraw_150_of_100:
  "withdraw_try 1 (double_of_int 150) 2 db_alice
     = (Inl (HTTPException 400 (Literal ''Insufficient funds'')), db_alice)
   \<and> withdraw 1 (double_of_int 150) 2 db_alice = (Inl insufficient_500, db_alice)
   \<and> status_code insufficient_500 = Some 500
   \<and> active_balance 1 db_alice = Some (double_of_int 100)"
  by (simp add: eval_defs)

subsection \<open>C4: deleting an account\<close>

text \<open>
  Claim C4, at the database that holds account 1 of Alice. \<^verbatim>\<open>delete_account\<close> removes
  the row: the table is empty afterwards and no \<open>deleted_at\<close> is set. On an absent account
  it fails with status 500. \<^verbatim>\<open>delete_transaction\<close>, on a transaction of the same account,
  keeps the row and sets its \<open>deleted_at_txn\<close>.
\<close>

theorem delete_account_removes_row:
  "delete_account 1 db_alice = (Inr ''Account deleted successfully'', empty_db)
   \<and> refresh 1 (accounts (snd (delete_account 1 db_alice))) = None
   \<and> delete_account 2 db_alice = (Inl not_found_500, db_alice)
   \<and> delete_transaction 1 1 9
        \<lparr>accounts = [], transactions = [\<lparr>id_txn = 1, account_id = 1,
           amount = Some (double_of_int 5),
           type_txn = ''deposit'', created_at_txn = 0, deleted_at_txn = None\<rparr>]\<rparr>
      = (Inr ''Transaction deleted successfully'',
         \<lparr>accounts = [], transactions = [\<lparr>id_txn = 1, account_id = 1,
           amount = Some (double_of_int 5),
           type_txn = ''deposit'', created_at_txn = 0, deleted_at_txn = Some 9\<rparr>]\<rparr>)"
  by (simp add: eval_defs)

subsection \<open>C5: after the deletion\<close>

text \<open>
  Claim C5, at the database of Alice (account 1) and Bob (account 2) after account 1 is
  deleted. The list of accounts holds Bob alone, as the claim says. \<^verbatim>\<open>get_account\<close> and
  a second \<^verbatim>\<open>delete_account\<close> raise the exception of status 404 in their try blocks, and
  the caller receives the exception of status 500 of the catch-all clause.
\<close>

theorem after_delete_account:
  "delete_account 1 db_alice_bob
     = (Inr ''Account deleted successfully'',
        \<lparr>accounts = [row_of 2 ''Bob'' 0], transactions = []\<rparr>)
   \<and> get_accounts \<lparr>accounts = [row_of 2 ''Bob'' 0], transactions = []\<rparr>
     = (Inr [row_of 2 ''Bob'' 0], \<lparr>accounts = [row_of 2 ''Bob'' 0], transactions = []\<rparr>)
   \<and> get_account_try 1 \<lparr>accounts = [row_of 2 ''Bob'' 0], transactions = []\<rparr>
     = (Inl (HTTPException 404 (Literal ''Account not found'')),
        \<lparr>accounts = [row_of 2 ''Bob'' 0], transactions = []\<rparr>)
   \<and> get_account 1 \<lparr>accounts = [row_of 2 ''Bob'' 0], transactions = []\<rparr>
     = (Inl not_found_500, \<lparr>accounts = [row_of 2 ''Bob'' 0], transactions = []\<rparr>)
   \<and> delete_account 1 \<lparr>accounts = [row_of 2 ''Bob'' 0], transactions = []\<rparr>
     = (Inl not_found_500, \<lparr>accounts = [row_of 2 ''Bob'' 0], transactions = []\<rparr>)
   \<and> status_code not_found_500 = Some 500"
  by (simp add: eval_defs)

subsection \<open>C6: a deposit of a non-positive amount\<close>




subsection \<open>C7: a transfer of a non-positive amount, a transfer to oneself\<close>




subsection \<open>C8: the type of a transaction\<close>

text \<open>
  \<^verbatim>\<open>create_transaction\<close> takes the type as a string and does not compare it with
  \<^verbatim>\<open>deposit\<close>, \<^verbatim>\<open>withdrawal\<close> or \<^verbatim>\<open>transfer\<close>. A transaction of type \<^verbatim>\<open>bogus\<close>
  is created.
\<close>

theorem create_transaction_bogus:
  "create_transaction 1 \<lparr>amount_in = double_of_int 3, type_in = ''bogus'', created_at_txn_in = 0,
       deleted_at_txn_in = None\<rparr> empty_db
   = (Inr (''Transaction created successfully'',
           Some \<lparr>id_txn = 1, account_id = 1, amount = Some (double_of_int 3),
                 type_txn = ''bogus'', created_at_txn = 0, deleted_at_txn = None\<rparr>),
      \<lparr>accounts = [],
       transactions = [\<lparr>id_txn = 1, account_id = 1, amount = Some (double_of_int 3),
                        type_txn = ''bogus'', created_at_txn = 0, deleted_at_txn = None\<rparr>]\<rparr>)"
  by (simp add: eval_defs)

text \<open>
  Claim C8, as the code has it. For every account key, amount and type string,
  \<^verbatim>\<open>create_transaction\<close> succeeds and appends one transaction that carries that key,
  that amount as the column stores it, and that type.
\<close>

theorem create_transaction_any_type:
  "\<exists>t. create_transaction k transaction db =
          (Inr (''Transaction created successfully'', Some t),
           db\<lparr>transactions := transactions db @ [t]\<rparr>) \<and>
        account_id t = k \<and> amount t = to_sql (amount_in transaction) \<and>
        type_txn t = type_in transaction"
proof -
  let ?j = "next_rowid (map id_txn (transactions db))"
  let ?t = "\<lparr>id_txn = ?j, account_id = k, amount = to_sql (amount_in transaction),
             type_txn = type_in transaction, created_at_txn = created_at_txn_in transaction,
             deleted_at_txn = deleted_at_txn_in transaction\<rparr>"
  have "id_txn y \<noteq> ?j" if "y \<in> set (transactions db)" for y
    using next_rowid_greater [of "id_txn y" "map id_txn (transactions db)"] that by simp
  then have "refresh_txn ?j (transactions db @ [?t]) = Some ?t"
    unfolding refresh_txn_def by (intro find_append_fresh) simp_all
  then show ?thesis
    by (simp add: create_transaction_def create_transaction_try_def Let_def)
qed

subsection \<open>C9: the catch-all clause\<close>

text \<open>
  Claim C9. In \<^verbatim>\<open>get_account\<close>, \<^verbatim>\<open>update_account\<close>, \<^verbatim>\<open>delete_account\<close>,
  \<^verbatim>\<open>deposit\<close>, \<^verbatim>\<open>withdraw\<close> and \<^verbatim>\<open>transfer\<close>, when the account (for a transfer, the
  source or the target) is not an active one the caller receives the exception of status
  500 that wraps the one of status 404; when the balance is below the amount,
  \<^verbatim>\<open>withdraw\<close> and \<^verbatim>\<open>transfer\<close> give the exception of status 500 that wraps the one of
  status 400; and every exception that leaves one of the six handlers has status 500 and
  leaves the database as it was.
\<close>

theorem catch_all_masks_http_errors:
  "(first_active k (accounts db) = None \<longrightarrow>
      get_account k db = (Inl not_found_500, db) \<and>
      update_account k account now db = (Inl not_found_500, db) \<and>
      delete_account k db = (Inl not_found_500, db) \<and>
      deposit k x now db = (Inl not_found_500, db) \<and>
      withdraw k x now db = (Inl not_found_500, db) \<and>
      transfer k target x now db = (Inl not_found_500, db) \<and>
      transfer target k x now db = (Inl not_found_500, db))
   \<and> (\<forall>s b. first_active k (accounts db) = Some s \<and> balance s = Some b \<and> flt b x \<longrightarrow>
        withdraw k x now db = (Inl insufficient_500, db) \<and>
        (first_active target (accounts db) \<noteq> None \<longrightarrow>
           transfer k target x now db = (Inl insufficient_500, db)))
   \<and> (\<forall>e db'.
        get_account k db = (Inl e, db') \<or> update_account k account now db = (Inl e, db') \<or>
        delete_account k db = (Inl e, db') \<or> deposit k x now db = (Inl e, db') \<or>
        withdraw k x now db = (Inl e, db') \<or> transfer k target x now db = (Inl e, db')
        \<longrightarrow> status_code e = Some 500 \<and> db' = db)"
proof (intro conjI impI allI)
  fix e db'
  assume "get_account k db = (Inl e, db') \<or> update_account k account now db = (Inl e, db') \<or>
        delete_account k db = (Inl e, db') \<or> deposit k x now db = (Inl e, db') \<or>
        withdraw k x now db = (Inl e, db') \<or> transfer k target x now db = (Inl e, db')"
  then have "status_code e = Some 500 \<and> db' = db"
    by (elim disjE) (simp_all add: handler_failure)
  then show "status_code e = Some 500" and "db' = db" by simp_all
qed (auto simp: handler_defs getattr_balance_def split: option.splits)

theorem catch_all_masks_http_errors_witness:
  "first_active 2 (accounts db_alice) = None
   \<and> get_account 2 db_alice = (Inl not_found_500, db_alice)
   \<and> update_account 2 (account_of ''Bob'' 1) 3 db_alice = (Inl not_found_500, db_alice)
   \<and> delete_account 2 db_alice = (Inl not_found_500, db_alice)
   \<and> deposit 2 (double_of_int 150) 3 db_alice = (Inl not_found_500, db_alice)
   \<and> withdraw 2 (double_of_int 150) 3 db_alice = (Inl not_found_500, db_alice)
   \<and> transfer 2 1 (double_of_int 150) 3 db_alice = (Inl not_found_500, db_alice)
   \<and> transfer 1 2 (double_of_int 150) 3 db_alice = (Inl not_found_500, db_alice)
   \<and> first_active 1 (accounts db_alice) = Some (row_of 1 ''Alice'' 100)
   \<and> balance (row_of 1 ''Alice'' 100) = Some (double_of_int 100)
   \<and> flt (double_of_int 100) (double_of_int 150)
   \<and> withdraw 1 (double_of_int 150) 3 db_alice = (Inl insufficient_500, db_alice)
   \<and> transfer 1 1 (double_of_int 150) 3 db_alice = (Inl insufficient_500, db_alice)
   \<and> status_code not_found_500 = Some 500 \<and> status_code insufficient_500 = Some 500"
proof -
  have h1: "first_active 2 (accounts db_alice) = None"
    by (simp add: first_active_def db_alice_def row_of_def)
  have h2: "first_active 1 (accounts db_alice) = Some (row_of 1 ''Alice'' 100)"
    by (simp add: first_active_def db_alice_def row_of_def)
  have h3: "balance (row_of 1 ''Alice'' 100) = Some (double_of_int 100)" by (simp add: row_of_def)
  have h4: "flt (double_of_int 100) (double_of_int 150)" by (simp add: float_evals)
  note absent = catch_all_masks_http_errors
    [where k = 2 and db = db_alice and account = "account_of ''Bob'' 1" and now = 3
       and x = "double_of_int 150" and target = 1]
  note short = catch_all_masks_http_errors
    [where k = 1 and db = db_alice and account = "account_of ''Bob'' 1" and now = 3
       and x = "double_of_int 150" and target = 1]
  have a: "get_account 2 db_alice = (Inl not_found_500, db_alice)"
    "update_account 2 (account_of ''Bob'' 1) 3 db_alice = (Inl not_found_500, db_alice)"
    "delete_account 2 db_alice = (Inl not_found_500, db_alice)"
    "deposit 2 (double_of_int 150) 3 db_alice = (Inl not_found_500, db_alice)"
    "withdraw 2 (double_of_int 150) 3 db_alice = (Inl not_found_500, db_alice)"
    "transfer 2 1 (double_of_int 150) 3 db_alice = (Inl not_found_500, db_alice)"
    "transfer 1 2 (double_of_int 150) 3 db_alice = (Inl not_found_500, db_alice)"
    using absent h1 by simp_all
  have b: "withdraw 1 (double_of_int 150) 3 db_alice = (Inl insufficient_500, db_alice)"
    "transfer 1 1 (double_of_int 150) 3 db_alice = (Inl insufficient_500, db_alice)"
    using short h2 h3 h4 by simp_all
  have c: "status_code not_found_500 = Some 500" "status_code insufficient_500 = Some 500"
    using absent a(1) short b(1) by blast+
  show ?thesis using h1 h2 h3 h4 a b c by simp
qed

subsection \<open>C10: a transfer to oneself\<close>




end
